theory Spec2Isabelle
  imports Main "HOL-Library.Word"
begin

section \<open>The navigation link of the blog: active-state resolution\<close>

text \<open>
  The only logic of the repository is the frontmatter of the header link component:
  \<^verbatim>\<open>
  const { href, class: className, ...props } = Astro.props;

  const { pathname } = Astro.url;
  const isActive = href === pathname || href === pathname.replace(/\/$/, '');
  \<close>
  The embedding follows it line by line: JavaScript strings, the regular expression
  \<^verbatim>\<open>/\/$/\<close>, \<^verbatim>\<open>String.prototype.replace\<close> for that expression, the
  comparison, and the ambient \<^verbatim>\<open>Astro\<close> object the two operands are read from.
\<close>

subsection \<open>JavaScript strings\<close>

text \<open>
  A JavaScript string is a finite sequence of UTF-16 code units; \<^verbatim>\<open>===\<close> on two
  strings compares them code unit by code unit, and a regular expression without the
  \<^verbatim>\<open>u\<close> flag matches code units. \<open>js\<close> writes an ASCII literal as such a sequence.
\<close>

type_synonym code_unit = "16 word"

type_synonym js_string = "code_unit list"

definition js :: "string \<Rightarrow> js_string" where
  "js s = map of_char s"

definition SLASH :: code_unit where
  "SLASH = 0x2F"

subsection \<open>The regular expression and \<open>replace\<close>\<close>

text \<open>
  \<^verbatim>\<open>/\/$/\<close> has no flags. It is the character \<^verbatim>\<open>/\<close> followed by the assertion
  \<^verbatim>\<open>$\<close>, which without the \<^verbatim>\<open>m\<close> flag holds at the end of the input only.
  \<open>matchSlashEnd\<close> tries the expression at the start of a suffix of the subject and
  returns the length of the match.
\<close>

fun matchSlashEnd :: "js_string \<Rightarrow> nat option" where
  "matchSlashEnd [] = None"
| "matchSlashEnd (c # rest) = (if c = SLASH \<and> rest = [] then Some 1 else None)"

text \<open>
  \<^verbatim>\<open>subject.replace(/\/$/, replacement)\<close>: the expression is not global, so the
  leftmost match alone is replaced. The search tries every start index from the left;
  the code units before the match are kept, the match is replaced, and what follows the
  match is kept. Without a match the subject is returned as it is. The replacement
  of the source, \<^verbatim>\<open>''\<close>, has no \<^verbatim>\<open>$\<close> pattern to expand.
\<close>

fun replaceSlashEnd :: "js_string \<Rightarrow> js_string \<Rightarrow> js_string" where
  "replaceSlashEnd [] replacement = []"
| "replaceSlashEnd (c # cs) replacement =
     (case matchSlashEnd (c # cs) of
        Some n \<Rightarrow> replacement @ drop n (c # cs)
      | None \<Rightarrow> c # replaceSlashEnd cs replacement)"

subsection \<open>The comparison\<close>

text \<open>
  The right-hand side of \<^verbatim>\<open>const isActive = ...\<close> with its two free variables as
  parameters: \<open>currentPath\<close> is \<^verbatim>\<open>pathname\<close>, \<open>targetHref\<close> is \<^verbatim>\<open>href\<close>.
  The order of the parameters is the one of the specification,
  \<^verbatim>\<open>resolveActive(currentPath, targetHref)\<close>.
\<close>

definition resolveActive :: "js_string \<Rightarrow> js_string \<Rightarrow> bool" where
  "resolveActive currentPath targetHref =
     (targetHref = currentPath \<or> targetHref = replaceSlashEnd currentPath (js ''''))"

subsection \<open>The ambient \<open>Astro\<close> object\<close>

text \<open>
  The frontmatter reads \<^verbatim>\<open>Astro.props\<close> and \<^verbatim>\<open>Astro.url\<close>. Of the properties it
  takes \<^verbatim>\<open>href\<close> and \<^verbatim>\<open>class\<close> by name and the others as a rest object; of the URL it
  takes \<^verbatim>\<open>pathname\<close>. The extension slot of each record stands for the fields that
  are not named (the rest properties; host, search, hash and so on of the URL; the other
  members of \<^verbatim>\<open>Astro\<close>). The specification's data model has both operands as strings.
\<close>

record Props =
  href :: js_string
  className :: "js_string option"

record URL =
  pathname :: js_string

record ('p, 'u) Astro =
  props :: "'p Props_scheme"
  url :: "'u URL_scheme"

definition isActive :: "('p, 'u, 'z) Astro_scheme \<Rightarrow> bool" where
  "isActive astro =
     (let h = href (props astro);
          p = pathname (url astro)
      in h = p \<or> h = replaceSlashEnd p (js ''''))"

subsection \<open>Notions of the specification\<close>

text \<open>
  The specification's own normalisation, word for word: it "removes exactly one trailing
  \<^verbatim>\<open>/\<close> character if present and the string is longer than one character".
\<close>

definition stripTrailingSlash :: "js_string \<Rightarrow> js_string" where
  "stripTrailingSlash s = (if 1 < length s \<and> last s = SLASH then butlast s else s)"

text \<open>A path is well formed when it starts with \<^verbatim>\<open>/\<close>, as the current path always does.\<close>

fun startsWithSlash :: "js_string \<Rightarrow> bool" where
  "startsWithSlash [] = False"
| "startsWithSlash (c # cs) = (c = SLASH)"

text \<open>
  Two strings differ only in surrounding whitespace when they are different and
  \<^verbatim>\<open>String.prototype.trim\<close> makes them equal. The code units \<^verbatim>\<open>trim\<close> removes
  are ECMAScript's WhiteSpace and LineTerminator.
\<close>

definition isWhiteSpace :: "code_unit \<Rightarrow> bool" where
  "isWhiteSpace c =
     (c \<in> set [0x09, 0x0A, 0x0B, 0x0C, 0x0D, 0x20, 0xA0, 0x1680, 0x2000, 0x2001, 0x2002,
               0x2003, 0x2004, 0x2005, 0x2006, 0x2007, 0x2008, 0x2009, 0x200A, 0x2028,
               0x2029, 0x202F, 0x205F, 0x3000, 0xFEFF])"

definition trim :: "js_string \<Rightarrow> js_string" where
  "trim s = rev (dropWhile isWhiteSpace (rev (dropWhile isWhiteSpace s)))"

definition differOnlyInWhitespace :: "js_string \<Rightarrow> js_string \<Rightarrow> bool" where
  "differOnlyInWhitespace a b = (a \<noteq> b \<and> trim a = trim b)"

text \<open>
  Two strings differ only in percent-encoding when they are different and decoding the
  escapes \<^verbatim>\<open>%XY\<close> makes them equal. The decoder replaces every escape with two
  hexadecimal digits by the code unit of that value, from the left, and keeps everything
  else, a \<^verbatim>\<open>%\<close> without two digits included.
\<close>

definition PERCENT :: code_unit where
  "PERCENT = 0x25"

definition isHexDigit :: "code_unit \<Rightarrow> bool" where
  "isHexDigit c =
     ((0x30 \<le> c \<and> c \<le> 0x39) \<or> (0x41 \<le> c \<and> c \<le> 0x46) \<or> (0x61 \<le> c \<and> c \<le> 0x66))"

definition hexValue :: "code_unit \<Rightarrow> code_unit" where
  "hexValue c = (if c \<le> 0x39 then c - 0x30 else if c \<le> 0x46 then c - 0x37 else c - 0x57)"

fun percentDecode :: "js_string \<Rightarrow> js_string" where
  "percentDecode (p # x # y # rest) =
     (if p = PERCENT \<and> isHexDigit x \<and> isHexDigit y
      then (16 * hexValue x + hexValue y) # percentDecode rest
      else p # percentDecode (x # y # rest))"
| "percentDecode s = s"

definition differOnlyInPercentEncoding :: "js_string \<Rightarrow> js_string \<Rightarrow> bool" where
  "differOnlyInPercentEncoding a b = (a \<noteq> b \<and> percentDecode a = percentDecode b)"

section \<open>What \<open>replace\<close> computes\<close>

lemma js_empty: "js '''' = []"
  by (simp add: js_def)

lemma js_slash: "js ''/'' = [SLASH]"
  by (simp add: js_def SLASH_def)

lemma replaceSlashEnd_last:
  "replaceSlashEnd s r = (if s \<noteq> [] \<and> last s = SLASH then butlast s @ r else s)"
  by (induction s) auto

lemma replaceSlashEnd_snoc: "replaceSlashEnd (s @ [SLASH]) r = s @ r"
  by (simp add: replaceSlashEnd_last)

lemma replaceSlashEnd_length: "length s \<le> length (replaceSlashEnd s []) + 1"
  by (simp add: replaceSlashEnd_last)

lemma resolveActive_iff:
  "resolveActive cp h = (h = cp \<or> cp = h @ [SLASH])"
proof -
  have "(cp \<noteq> [] \<and> last cp = SLASH \<and> h = butlast cp) = (cp = h @ [SLASH])"
    by (cases cp rule: rev_cases) auto
  then show ?thesis
    unfolding resolveActive_def js_empty replaceSlashEnd_last by auto
qed

text \<open>
  The constant of the frontmatter is the comparison at the two strings it reads from the
  ambient object, so what is proved of \<open>resolveActive\<close> holds of every render.
\<close>

lemma isActive_resolveActive:
  "isActive astro = resolveActive (pathname (url astro)) (href (props astro))"
  by (simp add: isActive_def resolveActive_def Let_def)

lemma isWhiteSpace_SLASH: "\<not> isWhiteSpace SLASH"
  by (simp add: isWhiteSpace_def SLASH_def)

lemma trim_snoc:
  assumes "\<not> isWhiteSpace c"
  shows "trim (s @ [c]) = dropWhile isWhiteSpace s @ [c]"
proof -
  have "dropWhile isWhiteSpace (s @ [c]) = dropWhile isWhiteSpace s @ [c]"
    using assms by (induction s) auto
  then show ?thesis
    using assms by (simp add: trim_def)
qed

lemma trim_length: "length (trim s) \<le> length (dropWhile isWhiteSpace s)"
proof -
  have "length (dropWhile isWhiteSpace (rev (dropWhile isWhiteSpace s)))
          \<le> length (rev (dropWhile isWhiteSpace s))"
    by (rule length_dropWhile_le)
  then show ?thesis by (simp add: trim_def)
qed

lemma trim_snoc_neq:
  assumes "\<not> isWhiteSpace c"
  shows "trim (s @ [c]) \<noteq> trim s"
proof
  assume "trim (s @ [c]) = trim s"
  then have "length (dropWhile isWhiteSpace s @ [c]) = length (trim s)"
    using trim_snoc [OF assms] by simp
  then show False
    using trim_length [of s] by simp
qed

section \<open>The claims\<close>

subsection \<open>The rule\<close>

text \<open>
  Claim C1, as written: for every current path starting with \<^verbatim>\<open>/\<close> and every target
  href, the result is \<open>href = path \<or> href = stripTrailingSlash path\<close>, where
  \<open>stripTrailingSlash\<close> leaves a string of length one, the root path, as it is.
  The regular expression has no such length condition: on the root path it matches the
  only character and \<open>replace\<close> returns the empty string, so at the root path and
  the empty href the code answers true and the rule as written answers false.
\<close>

theorem C1_rule_counterexample:
  "startsWithSlash (js ''/'') \<and>
   resolveActive (js ''/'') (js '''') \<noteq>
     (js '''' = js ''/'' \<or> js '''' = stripTrailingSlash (js ''/''))"
  by (simp add: resolveActive_def stripTrailingSlash_def js_def SLASH_def)

text \<open>
  Claim C1, as the code has it: for every current path and every target href, the result
  is \<open>href = path \<or> href = stripTrailingSlash path\<close> or the path is the root
  path and the href is empty. Said otherwise, the normalisation removes one trailing
  \<^verbatim>\<open>/\<close> from every string that ends in one, the root path included.
\<close>

theorem C1_rule_amended:
  "resolveActive cp h =
     (h = cp \<or> h = stripTrailingSlash cp \<or> (cp = js ''/'' \<and> h = js ''''))"
proof (cases cp rule: rev_cases)
  case Nil
  then show ?thesis
    by (auto simp add: resolveActive_iff stripTrailingSlash_def js_slash js_empty)
next
  case (snoc front c)
  then show ?thesis
    by (cases front)
       (auto simp add: resolveActive_iff stripTrailingSlash_def js_slash js_empty)
qed

subsection \<open>The root path\<close>

text \<open>
  Claim C2, as written: \<open>resolveActive "/" "/"\<close> is true, the normalisation never
  reduces the root path to the empty string, and so the empty href is not active on the
  root path. The first part holds; the normalisation of the code does reduce the root
  path to the empty string and the empty href is active there.
\<close>

theorem C2_root_counterexample:
  "replaceSlashEnd (js ''/'') (js '''') = js '''' \<and> resolveActive (js ''/'') (js '''') = True"
  by (simp add: resolveActive_def js_def SLASH_def)

text \<open>
  Claim C2, as the code has it: \<open>resolveActive "/" "/"\<close> is true; the normalisation
  turns the root path into the empty string; on the root path the active hrefs are
  exactly \<^verbatim>\<open>/\<close> and the empty string.
\<close>

theorem C2_root_amended:
  "resolveActive (js ''/'') (js ''/'') \<and>
   replaceSlashEnd (js ''/'') (js '''') = js '''' \<and>
   resolveActive (js ''/'') h = (h = js ''/'' \<or> h = js '''')"
  by (auto simp add: resolveActive_iff replaceSlashEnd_last js_slash js_empty)

subsection \<open>No failure; malformed hrefs\<close>

text \<open>
  Claim C3, as written: the resolution cannot fail, and every malformed or empty target
  href (one that does not start with \<^verbatim>\<open>/\<close>) paired with a valid current path is
  inactive. The empty href on the root path is active.
\<close>

theorem C3_malformed_counterexample:
  "startsWithSlash (js ''/'') \<and> \<not> startsWithSlash (js '''') \<and>
   resolveActive (js ''/'') (js '''') \<noteq> False"
  by (simp add: resolveActive_def js_def SLASH_def)

text \<open>
  Claim C3, as the code has it. The resolution is a total function to the booleans:
  \<open>matchSlashEnd\<close> and \<open>replaceSlashEnd\<close> are structurally recursive, and neither
  \<^verbatim>\<open>===\<close> nor \<^verbatim>\<open>replace\<close> on a string has a throwing branch to model. For every
  current path that starts with \<^verbatim>\<open>/\<close> and every target href that does not, the
  result is false, except for the root path with the empty href, where it is true.
\<close>

theorem C3_malformed_amended:
  "startsWithSlash cp \<Longrightarrow> \<not> startsWithSlash h \<Longrightarrow>
   resolveActive cp h = (cp = js ''/'' \<and> h = js '''')"
  by (cases cp; cases h) (auto simp add: resolveActive_iff js_slash js_empty)

theorem C3_malformed_amended_witness:
  "startsWithSlash (js ''/blog/'') \<and> \<not> startsWithSlash (js ''blog'') \<and>
   resolveActive (js ''/blog/'') (js ''blog'') = (js ''/blog/'' = js ''/'' \<and> js ''blog'' = js '''')"
proof -
  have cp: "startsWithSlash (js ''/blog/'')"
    by (simp add: js_def SLASH_def)
  have h: "\<not> startsWithSlash (js ''blog'')"
    by (simp add: js_def SLASH_def)
  show ?thesis
    using cp h C3_malformed_amended [OF cp h] by simp
qed

subsection \<open>One trailing slash, on the side of the current path only\<close>

text \<open>
  Claim C4: for every string \<open>p\<close> longer than one character, \<open>p\<close> is active on
  the current path \<open>p/\<close>, and the target href is compared as authored: the href
  \<open>p/\<close> is not active on the current path \<open>p\<close>.
\<close>

theorem C4_asymmetry:
  "1 < length p \<Longrightarrow>
   resolveActive (p @ js ''/'') p \<and> \<not> resolveActive p (p @ js ''/'')"
  by (simp add: resolveActive_iff js_slash)

theorem C4_asymmetry_witness:
  "1 < length (js ''/blog'') \<and>
   resolveActive (js ''/blog'' @ js ''/'') (js ''/blog'') \<and>
   \<not> resolveActive (js ''/blog'') (js ''/blog'' @ js ''/'')"
proof -
  have len: "1 < length (js ''/blog'')"
    by (simp add: js_def)
  show ?thesis
    using len C4_asymmetry [OF len] by simp
qed

text \<open>
  Claim C5: matching is exact up to one trailing slash of the current path and never by
  prefix. \<^verbatim>\<open>/blog\<close> is active on \<^verbatim>\<open>/blog/\<close> and not on \<^verbatim>\<open>/blog/post-1\<close>;
  a current path that extends the href \<open>t\<close> by anything but the single character
  \<^verbatim>\<open>/\<close>, so by every sub-path segment, leaves \<open>t\<close> inactive.
\<close>

theorem C5_no_prefix_match:
  "resolveActive (js ''/blog/'') (js ''/blog'') \<and>
   \<not> resolveActive (js ''/blog/post-1'') (js ''/blog'') \<and>
   (ext \<noteq> [] \<and> ext \<noteq> js ''/'' \<longrightarrow> \<not> resolveActive (t @ ext) t)"
proof -
  have "resolveActive (js ''/blog/'') (js ''/blog'')"
    by (simp add: resolveActive_iff js_def SLASH_def)
  moreover have "\<not> resolveActive (js ''/blog/post-1'') (js ''/blog'')"
    by (simp add: resolveActive_iff js_def SLASH_def)
  moreover have "ext \<noteq> [] \<and> ext \<noteq> js ''/'' \<longrightarrow> \<not> resolveActive (t @ ext) t"
    by (simp add: resolveActive_iff js_slash)
  ultimately show ?thesis by blast
qed

theorem C5_no_prefix_match_witness:
  "js ''/my-post'' \<noteq> [] \<and> js ''/my-post'' \<noteq> js ''/'' \<and>
   \<not> resolveActive (js ''/docs'' @ js ''/my-post'') (js ''/docs'')"
proof -
  have ext: "js ''/my-post'' \<noteq> [] \<and> js ''/my-post'' \<noteq> js ''/''"
    by (simp add: js_def)
  show ?thesis
    using ext C5_no_prefix_match [of "js ''/my-post''" "js ''/docs''"] by blast
qed

text \<open>Claim C6: every string is active on itself.\<close>

theorem C6_reflexive: "resolveActive p p"
  by (simp add: resolveActive_def)

text \<open>
  Claim C7: the four scenarios, the current path first: \<^verbatim>\<open>/\<close> with \<^verbatim>\<open>/\<close> is
  active, \<^verbatim>\<open>/blog/\<close> with \<^verbatim>\<open>/blog\<close> is active, \<^verbatim>\<open>/blog/my-post\<close> with
  \<^verbatim>\<open>/blog\<close> is not, \<^verbatim>\<open>/about\<close> with \<^verbatim>\<open>/about\<close> is active.
\<close>

theorem C7_scenarios:
  "resolveActive (js ''/'') (js ''/'') \<and>
   resolveActive (js ''/blog/'') (js ''/blog'') \<and>
   \<not> resolveActive (js ''/blog/my-post'') (js ''/blog'') \<and>
   resolveActive (js ''/about'') (js ''/about'')"
  by (simp add: resolveActive_def js_def SLASH_def)

subsection \<open>Exactly one code unit is removed\<close>

text \<open>
  Claim C9: the normalisation removes at most one trailing slash. From a current path
  that ends in two slashes exactly one is removed, a result is never shorter than its
  subject by more than one code unit, and so \<^verbatim>\<open>/blog\<close> is not active on
  \<^verbatim>\<open>/blog//\<close> while \<^verbatim>\<open>/blog/\<close> is.
\<close>

theorem C9_one_slash:
  "replaceSlashEnd (s @ js ''//'') (js '''') = s @ js ''/'' \<and>
   length cp \<le> length (replaceSlashEnd cp (js '''')) + 1 \<and>
   \<not> resolveActive (js ''/blog//'') (js ''/blog'') \<and>
   resolveActive (js ''/blog//'') (js ''/blog/'')"
proof -
  have "js ''//'' = [SLASH] @ [SLASH]"
    by (simp add: js_def SLASH_def)
  then have "replaceSlashEnd (s @ js ''//'') (js '''') = s @ js ''/''"
    using replaceSlashEnd_snoc [of "s @ [SLASH]" "[]"] by (simp add: js_slash js_empty)
  moreover have "length cp \<le> length (replaceSlashEnd cp (js '''')) + 1"
    using replaceSlashEnd_length [of cp] by (simp add: js_empty)
  moreover have "\<not> resolveActive (js ''/blog//'') (js ''/blog'')"
    by (simp add: resolveActive_iff js_def SLASH_def)
  moreover have "resolveActive (js ''/blog//'') (js ''/blog/'')"
    by (simp add: resolveActive_iff js_def SLASH_def)
  ultimately show ?thesis by blast
qed

subsection \<open>Exact comparison\<close>

lemma isHexDigit_SLASH: "\<not> isHexDigit SLASH"
  by (simp add: isHexDigit_def SLASH_def)

lemma percentDecode_snoc: "percentDecode (s @ [SLASH]) = percentDecode s @ [SLASH]"
  by (induction s rule: percentDecode.induct) (simp_all add: isHexDigit_SLASH)

lemma active_differ: "resolveActive cp h \<Longrightarrow> h \<noteq> cp \<Longrightarrow> cp = h @ [SLASH]"
  by (simp add: resolveActive_iff)

text \<open>
  Claim C10: the comparison is equality of the strings as they are, with no case folding,
  no trimming and no percent-decoding. The result is true for a target href that is the
  current path, or the current path without its last \<^verbatim>\<open>/\<close>, code unit for code
  unit, and for no other. So a current path and a target href that differ only in letter
  case, for every folding \<open>f\<close> of the code units, in the ASCII range or beyond it, are
  never active; nor are two that differ only in surrounding whitespace, nor two that
  differ only in percent-encoding, whichever of the two holds the escape; nor are two
  that any normalisation \<open>n\<close> whatever makes equal, a folding of several code units
  or a decoding to UTF-8 included, as long as \<open>n\<close> tells the href from the href
  followed by \<^verbatim>\<open>/\<close>.
\<close>

theorem C10_exact:
  "resolveActive cp h = (h = cp \<or> cp = h @ js ''/'') \<and>
   (h \<noteq> cp \<and> map f h = map f cp \<longrightarrow> \<not> resolveActive cp h) \<and>
   (differOnlyInWhitespace cp h \<longrightarrow> \<not> resolveActive cp h) \<and>
   (differOnlyInPercentEncoding cp h \<longrightarrow> \<not> resolveActive cp h) \<and>
   (h \<noteq> cp \<and> n h = n cp \<and> n (h @ js ''/'') \<noteq> n h \<longrightarrow> \<not> resolveActive cp h) \<and>
   \<not> resolveActive (js ''/a%20b'') (js ''/a b'')"
proof (intro conjI impI notI)
  show "resolveActive cp h = (h = cp \<or> cp = h @ js ''/'')"
    by (simp add: resolveActive_iff js_slash)
next
  assume d: "h \<noteq> cp \<and> map f h = map f cp" and r: "resolveActive cp h"
  from d have "length (map f h) = length (map f cp)"
    by simp
  then have "length h = length cp"
    by simp
  moreover from d r have "cp = h @ [SLASH]"
    by (simp add: active_differ)
  ultimately show False by simp
next
  assume d: "differOnlyInWhitespace cp h" and r: "resolveActive cp h"
  from d r have "cp = h @ [SLASH]"
    by (auto simp add: differOnlyInWhitespace_def resolveActive_iff)
  moreover from d have "trim cp = trim h"
    by (simp add: differOnlyInWhitespace_def)
  ultimately show False
    using trim_snoc_neq [OF isWhiteSpace_SLASH, of h] by simp
next
  assume d: "differOnlyInPercentEncoding cp h" and r: "resolveActive cp h"
  from d r have "cp = h @ [SLASH]"
    by (auto simp add: differOnlyInPercentEncoding_def resolveActive_iff)
  moreover from d have "percentDecode cp = percentDecode h"
    by (simp add: differOnlyInPercentEncoding_def)
  ultimately have "percentDecode h @ [SLASH] = percentDecode h"
    by (simp add: percentDecode_snoc)
  then show False by simp
next
  assume d: "h \<noteq> cp \<and> n h = n cp \<and> n (h @ js ''/'') \<noteq> n h" and r: "resolveActive cp h"
  from d r have "cp = h @ [SLASH]"
    by (simp add: active_differ)
  moreover from d have "n h = n cp" and "n (h @ [SLASH]) \<noteq> n h"
    unfolding js_slash by blast+
  ultimately show False
    by metis
next
  assume "resolveActive (js ''/a%20b'') (js ''/a b'')"
  then show False
    by (simp add: resolveActive_iff js_def SLASH_def)
qed

theorem C10_exact_witness:
  "\<not> resolveActive (js ''/Blog'') (js ''/blog'') \<and>
   \<not> resolveActive [0x2F, 0xC9] [0x2F, 0xE9] \<and>
   differOnlyInWhitespace (js ''/blog'') (js '' /blog '') \<and>
   \<not> resolveActive (js ''/blog'') (js '' /blog '') \<and>
   differOnlyInPercentEncoding (js ''/a%20b'') (js ''/a b'') \<and>
   \<not> resolveActive (js ''/a%20b'') (js ''/a b'') \<and>
   differOnlyInPercentEncoding (js ''/a b'') (js ''/a%20b'') \<and>
   \<not> resolveActive (js ''/a b'') (js ''/a%20b'')"
proof -
  let ?lower = "\<lambda>c::code_unit. if 0x41 \<le> c \<and> c \<le> 0x5A then c + 0x20
                  else if c = 0xC9 then 0xE9 else c"
  have ascii: "js ''/blog'' \<noteq> js ''/Blog'' \<and> map ?lower (js ''/blog'') = map ?lower (js ''/Blog'')"
    by (simp add: js_def)
  have latin: "[0x2F, 0xE9] \<noteq> [0x2F, 0xC9 :: code_unit] \<and>
               map ?lower [0x2F, 0xE9] = map ?lower [0x2F, 0xC9]"
    by simp
  have w: "differOnlyInWhitespace (js ''/blog'') (js '' /blog '')"
    by (simp add: differOnlyInWhitespace_def trim_def isWhiteSpace_def js_def)
  have e: "differOnlyInPercentEncoding (js ''/a%20b'') (js ''/a b'')"
    by (simp add: differOnlyInPercentEncoding_def PERCENT_def isHexDigit_def hexValue_def js_def)
  have e': "differOnlyInPercentEncoding (js ''/a b'') (js ''/a%20b'')"
    by (simp add: differOnlyInPercentEncoding_def PERCENT_def isHexDigit_def hexValue_def js_def)
  have n: "js ''/a b'' \<noteq> js ''/a%20b'' \<and> percentDecode (js ''/a b'') = percentDecode (js ''/a%20b'') \<and>
           percentDecode (js ''/a b'' @ js ''/'') \<noteq> percentDecode (js ''/a b'')"
    by (simp add: PERCENT_def isHexDigit_def hexValue_def js_def)
  have "\<not> resolveActive (js ''/Blog'') (js ''/blog'')"
    using ascii C10_exact [where cp = "js ''/Blog''" and h = "js ''/blog''" and f = ?lower]
    by blast
  moreover have "\<not> resolveActive [0x2F, 0xC9] [0x2F, 0xE9]"
    using latin C10_exact [where cp = "[0x2F, 0xC9]" and h = "[0x2F, 0xE9]" and f = ?lower]
    by blast
  moreover have "\<not> resolveActive (js ''/blog'') (js '' /blog '')"
    using w C10_exact [where cp = "js ''/blog''" and h = "js '' /blog ''"]
    by blast
  moreover have "\<not> resolveActive (js ''/a b'') (js ''/a%20b'')"
    using e' C10_exact [where cp = "js ''/a b''" and h = "js ''/a%20b''"]
    by blast
  moreover have "\<not> resolveActive (js ''/a%20b'') (js ''/a b'')"
    using n C10_exact [where cp = "js ''/a%20b''" and h = "js ''/a b''" and n = percentDecode]
    by blast
  ultimately show ?thesis
    using w e e' by blast
qed

end
